theory Spec2Isabelle
  imports Complex_Main "HOL-Library.Product_Lexorder"
begin

section \<open>Data model\<close>

text \<open>
  The transcript class of \<^verbatim>\<open>loci_objects/transcript.py\<close>. Coordinates are Python
  integers, so \<open>int\<close>. An exon, a CDS segment or a UTR segment is a tuple
  \<^verbatim>\<open>(start, end)\<close>; a segment of an internal ORF is a tuple
  \<^verbatim>\<open>(kind, start, end)\<close> whose kind is one of the strings "exon", "CDS", "UTR".
\<close>

type_synonym interval = "int \<times> int"

datatype kind = CDS | UTR | Exon

text \<open>
  Python compares the kind strings bytewise: \<^verbatim>\<open>"CDS" < "UTR" < "exon"\<close> (upper case
  sorts before lower case). \<open>kind_rank\<close> is that order.
\<close>

fun kind_rank :: "kind \<Rightarrow> nat" where
  "kind_rank CDS = 0"
| "kind_rank UTR = 1"
| "kind_rank Exon = 2"

type_synonym segment = "kind \<times> int \<times> int"

text \<open>The strand setter stores "+" or "-" and maps None, "." and "?" to None.\<close>

datatype strand = Plus | Minus

text \<open>The exceptions the modelled methods can raise.\<close>

datatype error =
    InvalidTranscript
  | ModificationError
  | UnboundLocalError
  | AttributeError
  | AssertionError
  | TypeError
  | IndexError
  | KeyError

text \<open>
  A candidate ORF, a row of the ORF table. Python compares two rows by identity;
  \<open>orf_id\<close> stands for the identity of the row (its primary key), so that two
  rows with the same coordinates are still different objects.
\<close>

record orf =
  orf_id :: nat
  thickStart :: int
  thickEnd :: int
  orf_strand :: "strand option"
  orf_has_start_codon :: bool
  orf_has_stop_codon :: bool
  cds_len :: int

text \<open>
  The configuration \<^verbatim>\<open>json_dict\<close> is a dictionary of sections, each a dictionary of
  options; the options read here are numbers and booleans. The database session answers
  the query for a transcript identifier: no entry when the query table has no row of
  that name, otherwise the ORF rows of that query.
\<close>

datatype json_value = JBool bool | JInt int | JNum real

type_synonym json = "string \<rightharpoonup> (string \<rightharpoonup> json_value)"

type_synonym database = "string \<rightharpoonup> orf list"

text \<open>
  The fields of a transcript object that the modelled methods read or write. The field
  \<^verbatim>\<open>end\<close> is called \<open>end_t\<close> (\<open>end\<close> is a keyword) and \<^verbatim>\<open>id\<close> is
  called by its alias \<open>tid\<close>. \<open>introns\<close> and \<open>splices\<close> are sets once
  \<^verbatim>\<open>finalize\<close> has run. \<open>json_dict\<close> and \<open>session\<close> are attributes that
  only \<^verbatim>\<open>load_json\<close> and \<^verbatim>\<open>connect_to_db\<close> create: \<open>None\<close> stands for an object that
  does not have the attribute, on which reading it raises AttributeError.
\<close>

record transcript =
  tid :: string
  chrom :: string
  feature :: string
  start :: int
  end_t :: int
  strand :: "strand option"
  exons :: "interval list"
  combined_cds :: "interval list"
  combined_utr :: "interval list"
  introns :: "interval set"
  splices :: "int set"
  finalized :: bool
  selected_internal_orf_index :: "nat option"
  has_start_codon :: bool
  has_stop_codon :: bool
  internal_orfs :: "segment list list"
  segments :: "segment list"
  loaded_bed12 :: "orf list"
  retained_introns :: "interval list"
  retained_fraction :: real
  exon_fraction :: real
  intron_fraction :: real
  cds_intron_fraction :: real
  selected_cds_intron_fraction :: real
  json_dict :: "json option"
  session :: "database option"

text \<open>A line of a GFF or GTF file, as \<^verbatim>\<open>addExon\<close> reads it.\<close>

record gffLine =
  g_parent :: "string list"
  g_feature :: string
  g_start :: int
  g_end :: int

section \<open>Lengths\<close>

definition seg_len :: "interval \<Rightarrow> int" where
  "seg_len e = snd e - fst e + 1"

definition cdna_length :: "transcript \<Rightarrow> int" where
  "cdna_length t = sum_list (map seg_len (exons t))"

definition combined_cds_length :: "transcript \<Rightarrow> int" where
  "combined_cds_length t = sum_list (map seg_len (combined_cds t))"

definition combined_utr_length :: "transcript \<Rightarrow> int" where
  "combined_utr_length t = sum_list (map seg_len (combined_utr t))"

definition monoexonic :: "transcript \<Rightarrow> bool" where
  "monoexonic t = (length (exons t) = 1)"

section \<open>addExon\<close>

text \<open>Python's \<^verbatim>\<open>p in s\<close> on two strings: \<open>p\<close> occurs in \<open>s\<close> as a substring.\<close>

fun str_in :: "string \<Rightarrow> string \<Rightarrow> bool" where
  "str_in p [] = (p = [])"
| "str_in p (c # cs) = (take (length p) (c # cs) = p \<or> str_in p cs)"

text \<open>
  \<^verbatim>\<open>addExon\<close>, lines 299-326. The branch of \<^verbatim>\<open>start_codon\<close> sets the flag and
  returns. The branch of \<^verbatim>\<open>stop_codon\<close> sets the flag and has no \<^verbatim>\<open>return\<close>:
  control reaches \<^verbatim>\<open>store.append\<close> with the local \<^verbatim>\<open>store\<close> never assigned, and
  Python raises UnboundLocalError. A raise is modelled by \<open>Inl\<close>; the object that the
  raising call leaves behind is not part of the result.
\<close>

definition addExon :: "transcript \<Rightarrow> gffLine \<Rightarrow> error + transcript" where
  "addExon t g =
    (let seg = (min (g_start g) (g_end g), max (g_start g) (g_end g)) in
     if finalized t then Inl ModificationError
     else if tid t \<notin> set (g_parent g) then Inl InvalidTranscript
     else if g_feature g = ''CDS'' then
       Inr (t\<lparr>combined_cds := combined_cds t @ [seg]\<rparr>)
     else if str_in ''combined_utr'' (g_feature g) \<or> str_in ''UTR'' (g_feature g) then
       Inr (t\<lparr>combined_utr := combined_utr t @ [seg]\<rparr>)
     else if g_feature g = ''exon'' then
       Inr (t\<lparr>exons := exons t @ [seg]\<rparr>)
     else if g_feature g = ''start_codon'' then
       Inr (t\<lparr>has_start_codon := True\<rparr>)
     else if g_feature g = ''stop_codon'' then
       Inl UnboundLocalError
     else Inl InvalidTranscript)"

section \<open>finalize\<close>

text \<open>
  The loop of lines 368-375 over the sorted exons: each pair of neighbours either
  overlaps (InvalidTranscript) or adds one intron and its two splice sites.
\<close>

fun exon_loop :: "interval list \<Rightarrow> interval list \<times> int list \<Rightarrow>
    error + (interval list \<times> int list)" where
  "exon_loop (exonA # exonB # rest) (ins, sps) =
     (if snd exonA \<ge> fst exonB then Inl InvalidTranscript
      else exon_loop (exonB # rest)
             (ins @ [(snd exonA + 1, fst exonB - 1)], sps @ [snd exonA + 1, fst exonB - 1]))"
| "exon_loop [e] acc = Inr acc"
| "exon_loop [] acc = Inr acc"

text \<open>
  The typed segmentation of lines 387-390, sorted by \<^verbatim>\<open>itemgetter(1,2,0)\<close>: start, end,
  then the kind string.
\<close>

definition seg_key :: "segment \<Rightarrow> int \<times> int \<times> nat" where
  "seg_key s = (fst (snd s), snd (snd s), kind_rank (fst s))"

definition make_segments :: "interval list \<Rightarrow> interval list \<Rightarrow> interval list \<Rightarrow> segment list" where
  "make_segments es cs us =
     sort_key seg_key
       (map (\<lambda>e. (Exon, fst e, snd e)) es @ map (\<lambda>c. (CDS, fst c, snd c)) cs
        @ map (\<lambda>u. (UTR, fst u, snd u)) us)"

text \<open>
  The property \<^verbatim>\<open>selected_internal_orf\<close>, lines 940-950. Without CDS it resets the
  selected index to 0 (the setter raises IndexError when there is no internal ORF) and
  returns the empty tuple; with CDS it indexes \<^verbatim>\<open>internal_orfs\<close>, which raises
  TypeError on the index None and IndexError out of range.
\<close>

definition selected_internal_orf :: "transcript \<Rightarrow> error + (transcript \<times> segment list)" where
  "selected_internal_orf t =
     (if combined_cds t = [] then
        (if internal_orfs t = [] then Inl IndexError
         else Inr (t\<lparr>selected_internal_orf_index := Some 0\<rparr>, []))
      else (case selected_internal_orf_index t of
              None \<Rightarrow> Inl TypeError
            | Some i \<Rightarrow> if i < length (internal_orfs t) then Inr (t, internal_orfs t ! i)
                        else Inl IndexError))"

definition set_relative_properties :: "transcript \<Rightarrow> transcript" where
  "set_relative_properties t =
     t\<lparr>retained_introns := [], retained_fraction := 0, exon_fraction := 1,
       intron_fraction := 1, cds_intron_fraction := 1, selected_cds_intron_fraction := 1\<rparr>"

text \<open>
  Lines 379-384: the codon flags inferred from the position of the UTR relative to the
  CDS. The caller has checked that a transcript with UTR has CDS.
\<close>

definition infer_codons :: "transcript \<Rightarrow> transcript" where
  "infer_codons t =
     (let t1 = (if combined_utr t \<noteq> [] \<and> fst (hd (combined_utr t)) < fst (hd (combined_cds t))
                then (if strand t = Some Plus then t\<lparr>has_start_codon := True\<rparr>
                      else if strand t = Some Minus then t\<lparr>has_stop_codon := True\<rparr>
                      else t)
                else t)
      in (if combined_utr t1 \<noteq> [] \<and> snd (last (combined_utr t1)) > snd (last (combined_cds t1))
          then (if strand t1 = Some Plus then t1\<lparr>has_stop_codon := True\<rparr>
                else if strand t1 = Some Minus then t1\<lparr>has_start_codon := True\<rparr>
                else t1)
          else t1))"

text \<open>
  Lines 377-406, the part of \<^verbatim>\<open>finalize\<close> after the exon loop: \<open>ins\<close> and
  \<open>sps\<close> are the introns and splice sites the loop collected.
\<close>

definition finalize_tail :: "transcript \<Rightarrow> interval list \<Rightarrow> int list \<Rightarrow> error + transcript" where
  "finalize_tail t ins sps =
     (let t1 = t\<lparr>combined_cds := sort (combined_cds t), combined_utr := sort (combined_utr t)\<rparr>;
          t2 = infer_codons t1;
          segs = make_segments (exons t2) (combined_cds t2) (combined_utr t2);
          t3 = t2\<lparr>internal_orfs := [segs], segments := segs\<rparr>;
          t4 = (if combined_cds_length t3 > 0 then t3\<lparr>selected_internal_orf_index := Some 0\<rparr>
                else t3);
          t5 = t4\<lparr>introns := set ins, splices := set sps\<rparr>
      in case selected_internal_orf t5 of
           Inl e \<Rightarrow> Inl e
         | Inr (t6, _) \<Rightarrow>
             (let t7 = (if combined_cds t6 \<noteq> [] then t6\<lparr>feature := ''mRNA''\<rparr> else t6)
              in Inr ((set_relative_properties t7)\<lparr>finalized := True\<rparr>)))"

text \<open>
  \<^verbatim>\<open>finalize\<close>, lines 328-406. A finalized transcript is returned as it is. The
  lists \<^verbatim>\<open>introns\<close> and \<open>splices\<close> that the method empties at entry are assigned
  again before it returns. The chained comparison
  \<^verbatim>\<open>combined_cds_length == combined_utr_length == 0\<close> is the conjunction of its two
  halves. \<^verbatim>\<open>sorted(..., key=itemgetter(0,1))\<close> is the stable sort on the pair itself.
\<close>

definition finalize :: "transcript \<Rightarrow> error + transcript" where
  "finalize t =
     (if finalized t then Inr t
      else if exons t = [] then Inl InvalidTranscript
      else if length (exons t) > 1 \<and> strand t = None then Inl InvalidTranscript
      else if combined_utr t \<noteq> [] \<and> combined_cds t = [] then Inl InvalidTranscript
      else if \<not> ((combined_cds_length t = combined_utr_length t \<and> combined_utr_length t = 0)
                 \<or> cdna_length t = combined_utr_length t + combined_cds_length t)
        then Inl InvalidTranscript
      else
        (let t1 = t\<lparr>exons := sort (exons t)\<rparr> in
         if fst (hd (exons t1)) \<noteq> start t1 \<or> snd (last (exons t1)) \<noteq> end_t t1
           then Inl InvalidTranscript
         else (case exon_loop (exons t1) ([], []) of
                 Inl e \<Rightarrow> Inl e
               | Inr (ins, sps) \<Rightarrow> finalize_tail t1 ins sps)))"

text \<open>
  A transcript as \<^verbatim>\<open>__init__\<close> leaves it, from the identifier, chromosome, extent
  and strand of its GFF line. The attributes that Python creates only later (the
  internal ORFs, the relative properties) start at the values \<^verbatim>\<open>finalize\<close> would
  give them; no configuration and no session are attached.
\<close>

definition new_transcript :: "string \<Rightarrow> string \<Rightarrow> int \<Rightarrow> int \<Rightarrow> strand option \<Rightarrow> transcript" where
  "new_transcript i c s e st =
     \<lparr>tid = i, chrom = c, feature = ''transcript'', start = s, end_t = e, strand = st,
      exons = [], combined_cds = [], combined_utr = [], introns = {}, splices = {},
      finalized = False, selected_internal_orf_index = None,
      has_start_codon = False, has_stop_codon = False,
      internal_orfs = [], segments = [], loaded_bed12 = [],
      retained_introns = [], retained_fraction = 0, exon_fraction = 1,
      intron_fraction = 1, cds_intron_fraction = 1, selected_cds_intron_fraction = 1,
      json_dict = None, session = None\<rparr>"

section \<open>What finalize checks, in the words of the specification\<close>

text \<open>
  An interval is well formed when its start is not after its end, as \<^verbatim>\<open>addExon\<close>
  stores every tuple (it sorts the two coordinates).
\<close>

definition wf_intervals :: "interval list \<Rightarrow> bool" where
  "wf_intervals xs = (\<forall>e \<in> set xs. fst e \<le> snd e)"

text \<open>Two closed intervals overlap when they share a position.\<close>

definition shares_position :: "interval \<Rightarrow> interval \<Rightarrow> bool" where
  "shares_position a b = (max (fst a) (fst b) \<le> min (snd a) (snd b))"

text \<open>Two of the exons, at different places of the list, overlap.\<close>

definition exons_overlap :: "interval list \<Rightarrow> bool" where
  "exons_overlap es =
     (\<exists>i \<in> set [0..<length es]. \<exists>j \<in> set [0..<length es].
        i \<noteq> j \<and> shares_position (es ! i) (es ! j))"

text \<open>
  The six reasons the specification gives for InvalidTranscript: no exon; several exons
  and no strand; UTR and no CDS; two exons that overlap; the first exon's start or the
  last exon's end, after sorting, not the transcript's; and the lengths not adding up
  while some CDS or UTR is present.
\<close>

definition finalize_invalid :: "transcript \<Rightarrow> bool" where
  "finalize_invalid t =
     (exons t = []
      \<or> (length (exons t) > 1 \<and> strand t = None)
      \<or> (combined_utr t \<noteq> [] \<and> combined_cds t = [])
      \<or> exons_overlap (exons t)
      \<or> (exons t \<noteq> [] \<and> (fst (hd (sort (exons t))) \<noteq> start t
                             \<or> snd (last (sort (exons t))) \<noteq> end_t t))
      \<or> ((combined_cds t \<noteq> [] \<or> combined_utr t \<noteq> [])
          \<and> cdna_length t \<noteq> combined_cds_length t + combined_utr_length t))"

text \<open>
  The exon loop in closed form: whether two neighbours of the list overlap, and the
  junctions and splice sites between neighbours.
\<close>

fun adj_overlap :: "interval list \<Rightarrow> bool" where
  "adj_overlap (a # b # rest) = (snd a \<ge> fst b \<or> adj_overlap (b # rest))"
| "adj_overlap _ = False"

fun junctions_of :: "interval list \<Rightarrow> interval list" where
  "junctions_of (a # b # rest) = (snd a + 1, fst b - 1) # junctions_of (b # rest)"
| "junctions_of _ = []"

fun splices_of :: "interval list \<Rightarrow> int list" where
  "splices_of (a # b # rest) = (snd a + 1) # (fst b - 1) # splices_of (b # rest)"
| "splices_of _ = []"

text \<open>The same overlap, on the set of exons: a repeated exon, or two different ones.\<close>

definition ov_set :: "interval list \<Rightarrow> bool" where
  "ov_set es = (\<not> distinct es \<or> (\<exists>a \<in> set es. \<exists>b \<in> set es. a \<noteq> b \<and> shares_position a b))"

section \<open>ORF reconciliation: load_orfs\<close>

text \<open>
  \<^verbatim>\<open>transcript.overlap\<close>, lines 884-888: the right end of the common part minus its
  left end.
\<close>

definition overlap :: "interval \<Rightarrow> interval \<Rightarrow> int" where
  "overlap first second =
     (let lend = max (fst first) (fst second); rend = min (snd first) (snd second)
      in rend - lend)"

text \<open>
  \<^verbatim>\<open>is_overlapping_cds\<close>, lines 868-874, the edge relation of the ORF graph.
\<close>

definition is_overlapping_cds :: "orf \<Rightarrow> orf \<Rightarrow> bool" where
  "is_overlapping_cds first second =
     (if first = second \<or> orf_strand first \<noteq> orf_strand second
         \<or> overlap (thickStart first, thickEnd first) (thickStart second, thickEnd second) < 0
      then False else True)"

text \<open>
  Modelled from the spec: \<^verbatim>\<open>abstractlocus.find_communities\<close> is not in the source
  tree. The specification says it returns the connected components of the undirected
  graph whose edges are the pairs the predicate holds for. Here each new vertex joins
  all the components it has an edge to; the components come in the order of their
  first member.
\<close>

fun find_communities :: "('a \<Rightarrow> 'a \<Rightarrow> bool) \<Rightarrow> 'a list \<Rightarrow> 'a list list" where
  "find_communities inters [] = []"
| "find_communities inters (x # xs) =
     (let cs = find_communities inters xs;
          near = filter (\<lambda>c. \<exists>y \<in> set c. inters x y \<or> inters y x) cs;
          far = filter (\<lambda>c. \<not> (\<exists>y \<in> set c. inters x y \<or> inters y x)) cs
      in (x # concat near) # far)"

text \<open>
  Reading \<^verbatim>\<open>self.json_dict[section][key]\<close>: AttributeError on an object without the
  attribute, KeyError on a missing section or key.
\<close>

definition json_get :: "transcript \<Rightarrow> string \<Rightarrow> string \<Rightarrow> error + json_value" where
  "json_get t section key =
     (case json_dict t of
        None \<Rightarrow> Inl AttributeError
      | Some d \<Rightarrow>
          (case d section of
             None \<Rightarrow> Inl KeyError
           | Some options \<Rightarrow>
               (case options key of
                  None \<Rightarrow> Inl KeyError
                | Some v \<Rightarrow> Inr v)))"

text \<open>
  \<^verbatim>\<open>load_orfs\<close>, lines 483-672. The method finalizes the transcript, reads its two
  options from the configuration (lines 514-515) and asks the session for the query row
  of the transcript identifier (line 516); without a row it returns (line 518). With a
  row, line 519 evaluates \<^verbatim>\<open>self.session.query(orf)\<close>. The name \<^verbatim>\<open>orf\<close> is a local
  variable of the method, because the loops of lines 541 and 548 assign it, and at line
  519 it is not bound yet: Python raises UnboundLocalError. Lines 520-672 (the candidate
  ORFs and their communities, the filter of line 541 on the length of the secondary
  ORFs, the projection on the exons, and the fallback to \<^verbatim>\<open>finalize\<close> of line 668) are
  never reached.
\<close>

definition load_orfs :: "transcript \<Rightarrow> error + transcript" where
  "load_orfs t =
     (case finalize t of
        Inl e \<Rightarrow> Inl e
      | Inr self \<Rightarrow>
          (case json_get self ''orf_loading'' ''minimal_secondary_orf_length'' of
             Inl e \<Rightarrow> Inl e
           | Inr minimal_secondary_orf_length \<Rightarrow>
               (case json_get self ''orf_loading'' ''trust_strand'' of
                  Inl e \<Rightarrow> Inl e
                | Inr trust_strand \<Rightarrow>
                    (case session self of
                       None \<Rightarrow> Inl AttributeError
                     | Some db \<Rightarrow>
                         (case db (tid self) of
                            None \<Rightarrow> Inr self
                          | Some rows \<Rightarrow> Inl UnboundLocalError)))))"

section \<open>split_by_cds\<close>

text \<open>
  \<^verbatim>\<open>split_by_cds\<close>, lines 705-849. The result is the object after the call and the
  list of transcripts the generator yields. After \<^verbatim>\<open>finalize\<close>, line 712 reads
  \<^verbatim>\<open>json_dict["chimera_split"]["minimal_hsp_overlap"]\<close>, whatever the number of ORFs.
  With fewer than two internal ORFs the list is then the object itself. The branch for
  two or more ORFs (lines 717-846) reads the BLAST hits and \<^verbatim>\<open>abstractlocus.overlap\<close>,
  which are not in the source tree; it is the parameter \<open>split_orfs\<close>. The closing
  \<^verbatim>\<open>assert\<close> refuses an empty list.
\<close>

definition number_internal_orfs :: "transcript \<Rightarrow> nat" where
  "number_internal_orfs t = length (internal_orfs t)"

definition split_by_cds ::
    "(transcript \<Rightarrow> error + transcript list) \<Rightarrow> transcript
     \<Rightarrow> error + (transcript \<times> transcript list)" where
  "split_by_cds split_orfs t =
     (case finalize t of
        Inl e \<Rightarrow> Inl e
      | Inr self \<Rightarrow>
          (case json_get self ''chimera_split'' ''minimal_hsp_overlap'' of
             Inl e \<Rightarrow> Inl e
           | Inr minimal_overlap \<Rightarrow>
               (case (if number_internal_orfs self < 2 then Inr [self] else split_orfs self) of
                  Inl e \<Rightarrow> Inl e
                | Inr new_transcripts \<Rightarrow>
                    if new_transcripts = [] then Inl AssertionError
                    else Inr (self, new_transcripts))))"

section \<open>The metric end_distance_from_tes\<close>

text \<open>The property \<^verbatim>\<open>combined_cds_end\<close>, lines 1128-1140.\<close>

definition combined_cds_end :: "transcript \<Rightarrow> int" where
  "combined_cds_end t =
     (if combined_cds t = [] then (if strand t = Some Plus then end_t t else start t)
      else if strand t = Some Minus then fst (hd (combined_cds t))
      else snd (last (combined_cds t)))"

text \<open>
  The two loops of \<^verbatim>\<open>end_distance_from_tes\<close>, lines 1480-1482 and 1486-1488. Each adds
  to the distance and then reads \<^verbatim>\<open>self.cds_end\<close>, an attribute the class never
  defines: the first round raises AttributeError.
\<close>

fun tes_loop_forward :: "transcript \<Rightarrow> interval list \<Rightarrow> int \<Rightarrow> error + int" where
  "tes_loop_forward t [] distance = Inr distance"
| "tes_loop_forward t (exon # rest) distance =
     (let distance1 = distance + (min (snd exon) (combined_cds_end t) - fst exon + 1)
      in Inl AttributeError)"

fun tes_loop_backward :: "transcript \<Rightarrow> interval list \<Rightarrow> int \<Rightarrow> error + int" where
  "tes_loop_backward t [] distance = Inr distance"
| "tes_loop_backward t (exon # rest) distance =
     (let distance1 = distance + (snd exon + 1 - max (combined_cds_end t) (fst exon))
      in Inl AttributeError)"

text \<open>
  \<^verbatim>\<open>end_distance_from_tes\<close>, lines 1473-1489. Both branches test for the minus strand,
  so the second is never taken and a plus-strand transcript keeps the distance 0.
\<close>

definition end_distance_from_tes :: "transcript \<Rightarrow> error + int" where
  "end_distance_from_tes t =
     (if combined_cds t = [] then Inr 0
      else if strand t = Some Minus then tes_loop_forward t (exons t) 0
      else if strand t = Some Minus then tes_loop_backward t (rev (exons t)) 0
      else Inr 0)"

text \<open>
  The metric as the specification words it: on the plus strand the exon length from the
  transcript end until the combined-CDS end is crossed, on the minus strand the same
  from the transcript start. The walk is the one of \<^verbatim>\<open>start_distance_from_tss\<close>, lines
  1437-1453, which counts the boundary position itself.
\<close>

fun walk_from_end :: "int \<Rightarrow> interval list \<Rightarrow> int \<Rightarrow> int" where
  "walk_from_end cds_end [] distance = distance"
| "walk_from_end cds_end (exon # rest) distance =
     (let distance1 = distance + (snd exon + 1 - max cds_end (fst exon))
      in if cds_end \<ge> fst exon then distance1 else walk_from_end cds_end rest distance1)"

fun walk_from_start :: "int \<Rightarrow> interval list \<Rightarrow> int \<Rightarrow> int" where
  "walk_from_start cds_end [] distance = distance"
| "walk_from_start cds_end (exon # rest) distance =
     (let distance1 = distance + (min (snd exon) cds_end - fst exon + 1)
      in if cds_end \<le> snd exon then distance1 else walk_from_start cds_end rest distance1)"

definition end_distance_from_tes_spec :: "transcript \<Rightarrow> int" where
  "end_distance_from_tes_spec t =
     (if combined_cds t = [] then 0
      else if strand t = Some Plus then walk_from_end (combined_cds_end t) (rev (exons t)) 0
      else if strand t = Some Minus then walk_from_start (combined_cds_end t) (exons t) 0
      else 0)"

section \<open>CDS introns\<close>

text \<open>
  The property \<^verbatim>\<open>selected_internal_orf_cds\<close>, lines 952-960: the CDS segments of the
  selected ORF. With CDS it indexes \<^verbatim>\<open>internal_orfs\<close> by the selected index.
\<close>

definition selected_internal_orf_cds :: "transcript \<Rightarrow> error + segment list" where
  "selected_internal_orf_cds t =
     (if combined_cds t = [] then Inr []
      else (case selected_internal_orf_index t of
              None \<Rightarrow> Inl TypeError
            | Some i \<Rightarrow> if i < length (internal_orfs t)
                        then Inr (filter (\<lambda>x. fst x = CDS) (internal_orfs t ! i))
                        else Inl IndexError))"

text \<open>
  The property \<^verbatim>\<open>selected_cds_introns\<close>, lines 1060-1069. The segments are
  \<^verbatim>\<open>(kind, start, end)\<close>, so index 1 is the start of the former segment and index 2 the
  end of the latter.
\<close>

definition selected_cds_introns :: "transcript \<Rightarrow> error + interval set" where
  "selected_cds_introns t =
     (case selected_internal_orf_cds t of
        Inl e \<Rightarrow> Inl e
      | Inr cds \<Rightarrow>
          Inr (set (map (\<lambda>position. (fst (snd (cds ! position)) + 1,
                                     snd (snd (cds ! (position + 1))) - 1))
                     [0..<length cds - 1])))"

text \<open>
  The junctions between neighbours of the combined CDS that are introns of the
  transcript: what \<^verbatim>\<open>combined_cds_introns\<close> collects in \<^verbatim>\<open>cintrons\<close>.
\<close>

definition cds_intron_list :: "transcript \<Rightarrow> interval list" where
  "cds_intron_list t =
     (if length (combined_cds t) < 2 then []
      else filter (\<lambda>junc. junc \<in> introns t) (junctions_of (combined_cds t)))"

text \<open>
  What the property \<^verbatim>\<open>combined_cds_introns\<close> returns is a Python list on one path and
  a Python set on the other.
\<close>

datatype py_collection = PyList "interval list" | PySet "interval set"

text \<open>
  The property \<^verbatim>\<open>combined_cds_introns\<close>, lines 1041-1058. With fewer than two CDS
  segments it returns the empty list (line 1045). Otherwise it returns the set of the
  junctions collected, after its \<^verbatim>\<open>assert\<close>: when the selected ORF has CDS introns, the
  combined CDS must have some.
\<close>

definition combined_cds_introns :: "transcript \<Rightarrow> error + py_collection" where
  "combined_cds_introns t =
     (if length (combined_cds t) < 2 then Inr (PyList [])
      else (case selected_cds_introns t of
              Inl e \<Rightarrow> Inl e
            | Inr sel \<Rightarrow>
                if sel \<noteq> {} \<and> cds_intron_list t = [] then Inl AssertionError
                else Inr (PySet (set (cds_intron_list t)))))"

text \<open>
  Python's \<^verbatim>\<open>set.intersection(a, b)\<close>, the method of the class called on its first
  argument: the first argument must be a set (TypeError otherwise), the second may be
  any collection.
\<close>

fun set_intersection :: "py_collection \<Rightarrow> py_collection \<Rightarrow> error + interval set" where
  "set_intersection (PySet a) (PySet b) = Inr (a \<inter> b)"
| "set_intersection (PySet a) (PyList b) = Inr (a \<inter> set b)"
| "set_intersection (PyList a) b = Inl TypeError"

section \<open>Superlocus.is_intersecting\<close>

text \<open>
  Modelled from the spec: \<^verbatim>\<open>Abstractlocus.overlap\<close> is not in the source tree. The
  specification gives \<^verbatim>\<open>overlap((a,b),(c,d)) = min(b,d) - max(a,c)\<close>.
\<close>

definition abstractlocus_overlap :: "interval \<Rightarrow> interval \<Rightarrow> int" where
  "abstractlocus_overlap first second =
     min (snd first) (snd second) - max (fst first) (fst second)"

text \<open>
  \<^verbatim>\<open>Superlocus.is_intersecting\<close>, lines 790-844 of \<^verbatim>\<open>superlocus.py\<close>. Both transcripts
  are finalized first. The introns of a finalized transcript are a set; the CDS introns
  are what the property returns, and both properties are read before
  \<^verbatim>\<open>set.intersection\<close> is called.
\<close>

definition is_intersecting :: "transcript \<Rightarrow> transcript \<Rightarrow> bool \<Rightarrow> error + bool" where
  "is_intersecting transcript other cds_only =
     (case finalize transcript of
        Inl e \<Rightarrow> Inl e
      | Inr t \<Rightarrow>
          (case finalize other of
             Inl e \<Rightarrow> Inl e
           | Inr ot \<Rightarrow>
               if tid t = tid ot then Inr False
               else if \<not> monoexonic t \<and> \<not> monoexonic ot then
                 (if \<not> cds_only then Inr (introns t \<inter> introns ot \<noteq> {})
                  else (case combined_cds_introns t of
                          Inl e \<Rightarrow> Inl e
                        | Inr a \<Rightarrow>
                            (case combined_cds_introns ot of
                               Inl e \<Rightarrow> Inl e
                             | Inr b \<Rightarrow>
                                 (case set_intersection a b of
                                    Inl e \<Rightarrow> Inl e
                                  | Inr intersection \<Rightarrow> Inr (intersection \<noteq> {})))))
               else if monoexonic t \<and> monoexonic ot then
                 (if start t = start ot \<or> end_t t = end_t ot then Inr True
                  else Inr (abstractlocus_overlap (start t, end_t t) (start ot, end_t ot) > 0))
               else Inr False))"

section \<open>Superlocus.define_alternative_splicing\<close>

text \<open>
  Lines 718-743 of \<^verbatim>\<open>superlocus.py\<close>. \<open>cliques\<close> is the first component of what
  \<^verbatim>\<open>find_communities\<close> returns for the transcript graph (sets of transcript
  identifiers), \<open>loci\<close> the ordered dictionary of the loci as pairs of locus identifier
  and primary transcript identifier, and \<open>tids\<close> the keys of \<^verbatim>\<open>self.transcripts\<close>.
\<close>

definition loci_cliques :: "string set list \<Rightarrow> (string \<times> string) list \<Rightarrow> (string \<times> string set) list" where
  "loci_cliques cliques loci =
     map (\<lambda>(lid, primary).
            (lid, \<Union> ((\<lambda>clique. {t \<in> clique. t \<noteq> primary}) ` {clique \<in> set cliques. primary \<in> clique})))
         loci"

definition loci_in :: "(string \<times> string set) list \<Rightarrow> string \<Rightarrow> string list" where
  "loci_in lc t = map fst (filter (\<lambda>(llid, members). t \<in> members) lc)"

text \<open>
  The candidates of each locus: a transcript that is no locus's primary goes to the one
  locus whose clique set holds it, when there is exactly one such locus.
\<close>

definition as_candidates ::
    "string set list \<Rightarrow> (string \<times> string) list \<Rightarrow> string list \<Rightarrow> string \<Rightarrow> string set" where
  "as_candidates cliques loci tids =
     fold (\<lambda>t candidates.
             (case loci_in (loci_cliques cliques loci) t of
                [lid] \<Rightarrow> candidates(lid := insert t (candidates lid))
              | _ \<Rightarrow> candidates))
          (filter (\<lambda>t. t \<notin> snd ` set loci) tids)
          (\<lambda>lid. {})"

text \<open>The primary of a locus and a transcript lie together in some clique.\<close>

definition shares_clique :: "string set list \<Rightarrow> string \<Rightarrow> string \<Rightarrow> bool" where
  "shares_clique cliques primary t = (\<exists>clique \<in> set cliques. primary \<in> clique \<and> t \<in> clique \<and> t \<noteq> primary)"

text \<open>
  The cliques that hold a transcript together with the primary of exactly one locus: the
  count the specification's sentence speaks of.
\<close>

definition cliques_with_one_primary ::
    "string set list \<Rightarrow> (string \<times> string) list \<Rightarrow> string \<Rightarrow> string set list" where
  "cliques_with_one_primary cliques loci t =
     filter (\<lambda>clique. t \<in> clique \<and> length (filter (\<lambda>locus. snd locus \<in> clique) loci) = 1) cliques"

section \<open>Finalized transcripts and the sublocus rule\<close>

text \<open>
  What \<^verbatim>\<open>finalize\<close> leaves behind: the flag is set, there is an exon, and with CDS the
  selected index points at an internal ORF.
\<close>

definition finalized_ok :: "transcript \<Rightarrow> bool" where
  "finalized_ok t =
     (finalized t \<and> exons t \<noteq> []
      \<and> (combined_cds t = []
          \<or> (case selected_internal_orf_index t of
                None \<Rightarrow> False
              | Some i \<Rightarrow> i < length (internal_orfs t))))"

text \<open>
  The sublocus rule on all introns, in the words of the specification: both transcripts
  multiexonic and sharing an intron, or both monoexonic and sharing a start or an end or
  overlapping by more than 0.
\<close>

definition sublocus_rule :: "transcript \<Rightarrow> transcript \<Rightarrow> bool" where
  "sublocus_rule t1 t2 =
     ((1 < length (exons t1) \<and> 1 < length (exons t2) \<and> introns t1 \<inter> introns t2 \<noteq> {})
      \<or> (length (exons t1) = 1 \<and> length (exons t2) = 1
          \<and> (start t1 = start t2 \<or> end_t t1 = end_t t2
              \<or> 0 < abstractlocus_overlap (start t1, end_t t1) (start t2, end_t t2))))"

section \<open>Example transcripts\<close>

text \<open>
  A two-exon coding transcript on the plus strand, as a parser would leave it after
  \<^verbatim>\<open>addExon\<close> (features in file order, not sorted), and the object that
  \<^verbatim>\<open>finalize\<close> makes of it.
\<close>

definition ex_coding :: transcript where
  "ex_coding = (new_transcript ''t1'' ''chr1'' 100 500 (Some Plus))
     \<lparr>exons := [(301, 500), (100, 200)],
      combined_cds := [(301, 400), (150, 200)],
      combined_utr := [(401, 500), (100, 149)]\<rparr>"

definition ex_coding_final :: transcript where
  "ex_coding_final = ex_coding
     \<lparr>feature := ''mRNA'',
      exons := [(100, 200), (301, 500)],
      combined_cds := [(150, 200), (301, 400)],
      combined_utr := [(100, 149), (401, 500)],
      introns := {(201, 300)}, splices := {201, 300},
      finalized := True, selected_internal_orf_index := Some 0,
      has_start_codon := True, has_stop_codon := True,
      internal_orfs := [[(UTR, 100, 149), (Exon, 100, 200), (CDS, 150, 200),
                         (CDS, 301, 400), (Exon, 301, 500), (UTR, 401, 500)]],
      segments := [(UTR, 100, 149), (Exon, 100, 200), (CDS, 150, 200),
                   (CDS, 301, 400), (Exon, 301, 500), (UTR, 401, 500)]\<rparr>"

text \<open>Two exons that share position 200.\<close>

definition ex_overlapping :: transcript where
  "ex_overlapping = (new_transcript ''t2'' ''chr1'' 100 300 (Some Plus))
     \<lparr>exons := [(100, 200), (200, 300)]\<rparr>"

text \<open>
  Candidate ORFs: two on the same strand that share only position 50, and a long and a
  short one that do not overlap. The short one is exactly as long as the configured
  minimum for secondary ORFs.
\<close>

definition ex_orf_a :: orf where
  "ex_orf_a = \<lparr>orf_id = 1, thickStart = 1, thickEnd = 50, orf_strand = Some Plus,
               orf_has_start_codon = True, orf_has_stop_codon = True, cds_len = 50\<rparr>"

definition ex_orf_b :: orf where
  "ex_orf_b = \<lparr>orf_id = 2, thickStart = 50, thickEnd = 120, orf_strand = Some Plus,
               orf_has_start_codon = True, orf_has_stop_codon = True, cds_len = 71\<rparr>"

definition ex_orf_long :: orf where
  "ex_orf_long = \<lparr>orf_id = 3, thickStart = 1, thickEnd = 150, orf_strand = Some Plus,
                  orf_has_start_codon = True, orf_has_stop_codon = True, cds_len = 150\<rparr>"

definition ex_orf_short :: orf where
  "ex_orf_short = \<lparr>orf_id = 4, thickStart = 201, thickEnd = 300, orf_strand = Some Plus,
                   orf_has_start_codon = True, orf_has_stop_codon = True, cds_len = 100\<rparr>"

text \<open>Lines of a GTF file for the codons of transcript t1.\<close>

definition ex_start_line :: gffLine where
  "ex_start_line = \<lparr>g_parent = [''t1''], g_feature = ''start_codon'', g_start = 150, g_end = 152\<rparr>"

definition ex_stop_line :: gffLine where
  "ex_stop_line = \<lparr>g_parent = [''t1''], g_feature = ''stop_codon'', g_start = 398, g_end = 400\<rparr>"

text \<open>An ORF that reaches beyond the cDNA of transcript t1 (301 bases).\<close>

definition ex_orf_outside :: orf where
  "ex_orf_outside = \<lparr>orf_id = 5, thickStart = 1, thickEnd = 1000, orf_strand = Some Plus,
                     orf_has_start_codon = True, orf_has_stop_codon = True, cds_len = 1000\<rparr>"

text \<open>
  A configuration with the options of ORF loading and of chimera splitting; the minimum
  length of a secondary ORF is 100.
\<close>

definition ex_json :: json where
  "ex_json =
     [''orf_loading'' \<mapsto> [''minimal_secondary_orf_length'' \<mapsto> JInt 100,
                          ''trust_strand'' \<mapsto> JBool False],
      ''chimera_split'' \<mapsto> [''execute'' \<mapsto> JBool True, ''blast_check'' \<mapsto> JBool False,
                            ''minimal_hsp_overlap'' \<mapsto> JNum 0.8,
                            ''maximal_hsp_evalue'' \<mapsto> JNum 0.0001]]"

text \<open>
  The finalized transcript t1 with the configuration loaded and a session whose database
  holds, for t1, the one ORF that lies outside its cDNA.
\<close>

definition ex_coding_loaded :: transcript where
  "ex_coding_loaded = ex_coding_final
     \<lparr>json_dict := Some ex_json, session := Some [''t1'' \<mapsto> [ex_orf_outside]]\<rparr>"

text \<open>
  A second two-exon transcript with the intron (201, 300) and no CDS, before and after
  \<^verbatim>\<open>finalize\<close>, and a finalized monoexonic transcript of 400 bases.
\<close>

definition ex_other :: transcript where
  "ex_other = (new_transcript ''t3'' ''chr1'' 150 450 (Some Plus))
     \<lparr>exons := [(150, 200), (301, 450)]\<rparr>"

definition ex_other_final :: transcript where
  "ex_other_final = ex_other
     \<lparr>introns := {(201, 300)}, splices := {201, 300},
      finalized := True, selected_internal_orf_index := Some 0,
      internal_orfs := [[(Exon, 150, 200), (Exon, 301, 450)]],
      segments := [(Exon, 150, 200), (Exon, 301, 450)]\<rparr>"

definition ex_mono_final :: transcript where
  "ex_mono_final = (new_transcript ''m1'' ''chr1'' 1001 1400 (Some Plus))
     \<lparr>exons := [(1001, 1400)], finalized := True, selected_internal_orf_index := Some 0,
      internal_orfs := [[(Exon, 1001, 1400)]], segments := [(Exon, 1001, 1400)]\<rparr>"

text \<open>
  The monoexonic transcript with the configuration loaded and a session whose database
  holds two ORFs for it, in the order of the query: the long one, of 150 bases, and the
  short one, of 100.
\<close>

definition ex_mono_loaded :: transcript where
  "ex_mono_loaded = ex_mono_final
     \<lparr>json_dict := Some ex_json, session := Some [''m1'' \<mapsto> [ex_orf_long, ex_orf_short]]\<rparr>"

text \<open>
  A transcript graph with the loci L1 and L2, of primaries P1 and P2. The transcript t
  lies in two cliques with P1; the transcript u lies in one clique with each primary.
\<close>

definition ex_cliques :: "string set list" where
  "ex_cliques = [{''P1'', ''t'', ''a''}, {''P1'', ''t'', ''b''}, {''P1'', ''u''}, {''P2'', ''u''}]"

definition ex_loci :: "(string \<times> string) list" where
  "ex_loci = [(''L1'', ''P1''), (''L2'', ''P2'')]"

definition ex_tids :: "string list" where
  "ex_tids = [''P1'', ''P2'', ''t'', ''a'', ''b'', ''u'']"

section \<open>Properties of finalize\<close>

lemma sum_list_insort_key:
  "sum_list (map f (insort_key k x xs)) = f x + sum_list (map (f::'a \<Rightarrow> int) xs)"
  by (induction xs) auto

lemma sum_list_sort_key:
  "sum_list (map f (sort_key k xs)) = sum_list (map (f::'a \<Rightarrow> int) xs)"
  by (induction xs) (auto simp: sum_list_insort_key)

lemma exon_loop_char:
  "exon_loop es (ins, sps) =
     (if adj_overlap es then Inl InvalidTranscript
      else Inr (ins @ junctions_of es, sps @ splices_of es))"
  by (induction es "(ins, sps)" arbitrary: ins sps rule: exon_loop.induct) auto

lemma telescope:
  "es \<noteq> [] \<Longrightarrow>
   sum_list (map seg_len es) + sum_list (map seg_len (junctions_of es))
     = snd (last es) - fst (hd es) + 1"
  by (induction es rule: junctions_of.induct) (auto simp: seg_len_def)

lemma chain_all:
  "wf_intervals (a # rest) \<Longrightarrow> \<not> adj_overlap (a # rest) \<Longrightarrow> \<forall>b \<in> set rest. snd a < fst b"
proof (induction rest arbitrary: a)
  case Nil
  then show ?case by simp
next
  case (Cons b rest)
  from Cons.prems have ab: "snd a < fst b" and bb: "fst b \<le> snd b"
    and wf: "wf_intervals (b # rest)" and no: "\<not> adj_overlap (b # rest)"
    by (auto simp: wf_intervals_def)
  from Cons.IH[OF wf no] have "\<forall>c \<in> set rest. snd b < fst c" .
  with ab bb show ?case by auto
qed

lemma junctions_gt:
  "wf_intervals (a # rest) \<Longrightarrow> \<not> adj_overlap (a # rest) \<Longrightarrow>
   \<forall>i \<in> set (junctions_of (a # rest)). snd a < fst i"
proof (induction rest arbitrary: a)
  case Nil
  then show ?case by simp
next
  case (Cons b rest)
  from Cons.prems have ab: "snd a < fst b" and bb: "fst b \<le> snd b"
    and wf: "wf_intervals (b # rest)" and no: "\<not> adj_overlap (b # rest)"
    by (auto simp: wf_intervals_def)
  from Cons.IH[OF wf no] have "\<forall>i \<in> set (junctions_of (b # rest)). snd b < fst i" .
  with ab bb show ?case by auto
qed

lemma junctions_distinct:
  "wf_intervals es \<Longrightarrow> \<not> adj_overlap es \<Longrightarrow> distinct (junctions_of es)"
proof (induction es rule: junctions_of.induct)
  case (1 a b rest)
  then have wf: "wf_intervals (b # rest)" and no: "\<not> adj_overlap (b # rest)"
    by (auto simp: wf_intervals_def)
  from junctions_gt[OF wf no] have "\<forall>i \<in> set (junctions_of (b # rest)). snd b < fst i" .
  moreover from 1 have "snd a < fst b" "fst b \<le> snd b" by (auto simp: wf_intervals_def)
  ultimately have "(snd a + 1, fst b - 1) \<notin> set (junctions_of (b # rest))" by fastforce
  with 1 wf no show ?case by simp
qed simp_all

lemma infer_codons_fields [simp]:
  "exons (infer_codons t) = exons t"
  "combined_cds (infer_codons t) = combined_cds t"
  "combined_utr (infer_codons t) = combined_utr t"
  "start (infer_codons t) = start t"
  "end_t (infer_codons t) = end_t t"
  "strand (infer_codons t) = strand t"
  "tid (infer_codons t) = tid t"
  by (simp_all add: infer_codons_def Let_def)

lemma finalize_tail_fields:
  assumes "finalize_tail t ins sps = Inr t'"
  shows "exons t' = exons t \<and> introns t' = set ins \<and> splices t' = set sps
       \<and> combined_cds t' = sort (combined_cds t) \<and> combined_utr t' = sort (combined_utr t)
       \<and> start t' = start t \<and> end_t t' = end_t t \<and> strand t' = strand t \<and> tid t' = tid t
       \<and> finalized t' \<and> length (internal_orfs t') = 1"
  using assms
  by (auto simp: finalize_tail_def Let_def selected_internal_orf_def set_relative_properties_def
        combined_cds_length_def split: if_splits option.splits)

lemma sort_eq_Nil [simp]: "(sort_key k xs = []) = (xs = [])"
  by (metis length_sort length_0_conv)

lemma finalize_tail_ok:
  assumes "combined_cds t = [] \<or> 0 < combined_cds_length t"
  shows "\<exists>t'. finalize_tail t ins sps = Inr t'"
  using assms
  by (auto simp: finalize_tail_def Let_def selected_internal_orf_def set_relative_properties_def
        combined_cds_length_def sum_list_sort_key split: if_splits option.splits)

lemma finalize_tail_not_invalid:
  "finalize_tail t ins sps \<noteq> Inl InvalidTranscript"
  by (auto simp: finalize_tail_def Let_def selected_internal_orf_def set_relative_properties_def
        split: if_splits option.splits)

lemma exons_overlapI:
  "i < length es \<Longrightarrow> j < length es \<Longrightarrow> i \<noteq> j \<Longrightarrow> shares_position (es ! i) (es ! j)
   \<Longrightarrow> exons_overlap es"
  unfolding exons_overlap_def
  by (rule bexI[of _ i], rule bexI[of _ j]) simp_all

lemma exons_overlap_ov_set:
  assumes "wf_intervals es"
  shows "exons_overlap es = ov_set es"
proof
  assume "exons_overlap es"
  then obtain i j where ij: "i < length es" "j < length es" "i \<noteq> j"
    and sh: "shares_position (es ! i) (es ! j)"
    by (auto simp: exons_overlap_def)
  show "ov_set es"
  proof (cases "es ! i = es ! j")
    case True
    with ij have "\<not> distinct es" by (auto simp: distinct_conv_nth)
    then show ?thesis by (simp add: ov_set_def)
  next
    case False
    with ij sh show ?thesis unfolding ov_set_def by (metis nth_mem)
  qed
next
  assume ov: "ov_set es"
  show "exons_overlap es"
  proof (cases "distinct es")
    case False
    then obtain i j where ij: "i < length es" "j < length es" "i \<noteq> j" "es ! i = es ! j"
      by (auto simp: distinct_conv_nth)
    from assms ij(1) have "fst (es ! i) \<le> snd (es ! i)"
      by (simp add: wf_intervals_def)
    with ij(4) have "shares_position (es ! i) (es ! j)"
      by (simp add: shares_position_def)
    with ij show ?thesis by (blast intro: exons_overlapI)
  next
    case True
    with ov obtain a b where ab: "a \<in> set es" "b \<in> set es" "a \<noteq> b" "shares_position a b"
      by (auto simp: ov_set_def)
    then obtain i j where "i < length es" "es ! i = a" "j < length es" "es ! j = b"
      by (auto simp: in_set_conv_nth)
    with ab show ?thesis by (blast intro: exons_overlapI)
  qed
qed

lemma ov_set_sort [simp]: "ov_set (sort es) = ov_set es"
  by (simp add: ov_set_def)

lemma ov_set_Cons:
  assumes "ov_set xs"
  shows "ov_set (a # xs)"
proof -
  from assms consider "\<not> distinct xs"
    | c d where "c \<in> set xs" "d \<in> set xs" "c \<noteq> d" "shares_position c d"
    unfolding ov_set_def by blast
  then show ?thesis
  proof cases
    case 1
    then show ?thesis by (simp add: ov_set_def)
  next
    case 2
    then have "c \<in> set (a # xs)" "d \<in> set (a # xs)" by simp_all
    with 2 show ?thesis unfolding ov_set_def by blast
  qed
qed

lemma adj_overlap_ov_set:
  "wf_intervals es \<Longrightarrow> sorted es \<Longrightarrow> adj_overlap es \<Longrightarrow> ov_set es"
proof (induction es rule: adj_overlap.induct)
  case (1 a b rest)
  show ?case
  proof (cases "snd a \<ge> fst b")
    case True
    from 1(3) have "a \<le> b" by simp
    then have "fst a \<le> fst b" by (cases a, cases b) auto
    moreover from 1(2) have "fst b \<le> snd b" by (simp add: wf_intervals_def)
    ultimately have "shares_position a b" using True by (simp add: shares_position_def)
    then show ?thesis by (cases "a = b") (auto simp: ov_set_def)
  next
    case False
    with 1 have "ov_set (b # rest)" by (auto simp: wf_intervals_def)
    then show ?thesis by (rule ov_set_Cons)
  qed
qed simp_all

lemma no_adj_overlap_no_ov_set:
  "wf_intervals es \<Longrightarrow> \<not> adj_overlap es \<Longrightarrow> \<not> ov_set es"
proof (induction es)
  case Nil
  then show ?case by (simp add: ov_set_def)
next
  case (Cons a rest)
  from chain_all[OF Cons.prems] have far: "\<forall>b \<in> set rest. snd a < fst b" .
  from Cons.prems have wfa: "fst a \<le> snd a" and wfr: "wf_intervals rest"
    by (auto simp: wf_intervals_def)
  from Cons.prems have "\<not> adj_overlap rest" by (cases rest) auto
  with Cons.IH wfr have IH: "\<not> ov_set rest" by simp
  from far wfa have "a \<notin> set rest" by auto
  moreover from far wfa wfr have "\<forall>b \<in> set rest. \<not> shares_position a b \<and> \<not> shares_position b a"
    by (auto simp: shares_position_def wf_intervals_def)
  ultimately show ?case using IH by (auto simp: ov_set_def)
qed

lemma wf_intervals_sort [simp]: "wf_intervals (sort es) = wf_intervals es"
  by (simp add: wf_intervals_def)

lemma adj_overlap_sort:
  assumes "wf_intervals es"
  shows "adj_overlap (sort es) = exons_overlap es"
proof -
  have "adj_overlap (sort es) = ov_set (sort es)"
    using adj_overlap_ov_set[of "sort es"] no_adj_overlap_no_ov_set[of "sort es"] assms
    by auto
  then show ?thesis using assms by (simp add: exons_overlap_ov_set)
qed

lemma wf_len_pos:
  "wf_intervals xs \<Longrightarrow> xs \<noteq> [] \<Longrightarrow> 0 < sum_list (map seg_len xs)"
proof (induction xs)
  case (Cons a xs)
  then show ?case by (cases xs) (auto simp: wf_intervals_def seg_len_def)
qed simp

lemma wf_len_nonneg:
  "wf_intervals xs \<Longrightarrow> 0 \<le> sum_list (map seg_len xs)"
  by (cases "xs = []") (auto dest: wf_len_pos simp: less_imp_le)

lemma finalize_char:
  assumes "\<not> finalized t"
  shows "finalize t =
     (if exons t = [] \<or> (length (exons t) > 1 \<and> strand t = None)
         \<or> (combined_utr t \<noteq> [] \<and> combined_cds t = [])
         \<or> \<not> ((combined_cds_length t = 0 \<and> combined_utr_length t = 0)
               \<or> cdna_length t = combined_utr_length t + combined_cds_length t)
         \<or> fst (hd (sort (exons t))) \<noteq> start t \<or> snd (last (sort (exons t))) \<noteq> end_t t
         \<or> adj_overlap (sort (exons t))
      then Inl InvalidTranscript
      else finalize_tail (t\<lparr>exons := sort (exons t)\<rparr>) (junctions_of (sort (exons t)))
             (splices_of (sort (exons t))))"
  using assms by (auto simp: finalize_def exon_loop_char Let_def)

lemma finalize_ex_coding: "finalize ex_coding = Inr ex_coding_final"
  by (simp add: finalize_def ex_coding_def ex_coding_final_def new_transcript_def
        finalize_tail_def infer_codons_def make_segments_def seg_key_def
        selected_internal_orf_def set_relative_properties_def
        cdna_length_def combined_cds_length_def combined_utr_length_def seg_len_def Let_def)

lemma ex_coding_not_finalized: "\<not> finalized ex_coding"
  by (simp add: ex_coding_def new_transcript_def)

lemma ex_coding_wf: "wf_intervals (exons ex_coding)"
  by (simp add: ex_coding_def new_transcript_def wf_intervals_def)

text \<open>
  Claim C3. Called on a transcript that is not finalized and whose exon, CDS and UTR
  tuples are well formed (start not after end, as \<^verbatim>\<open>addExon\<close> stores them),
  \<^verbatim>\<open>finalize\<close> raises InvalidTranscript exactly when the transcript has no exons, or
  more than one exon and no strand, or UTR and no CDS, or two exons that overlap, or a
  first exon start or last exon end (after sorting) that is not the transcript's, or a
  cDNA length different from CDS length plus UTR length while some CDS or UTR is present.
  Otherwise it returns normally.
\<close>

theorem finalize_raises_iff:
  assumes nf: "\<not> finalized t"
    and we: "wf_intervals (exons t)"
    and wc: "wf_intervals (combined_cds t)"
    and wu: "wf_intervals (combined_utr t)"
  shows "(finalize t = Inl InvalidTranscript \<longleftrightarrow> finalize_invalid t)
       \<and> (\<not> finalize_invalid t \<longrightarrow> (\<exists>t'. finalize t = Inr t'))"
proof -
  have cz: "(combined_cds_length t = 0) = (combined_cds t = [])"
    using wf_len_pos[OF wc] by (cases "combined_cds t = []") (auto simp: combined_cds_length_def)
  have uz: "(combined_utr_length t = 0) = (combined_utr t = [])"
    using wf_len_pos[OF wu] by (cases "combined_utr t = []") (auto simp: combined_utr_length_def)
  have cp: "combined_cds t = [] \<or> 0 < combined_cds_length t"
    using wf_len_pos[OF wc] by (auto simp: combined_cds_length_def)
  let ?t1 = "t\<lparr>exons := sort (exons t)\<rparr>"
  have cp1: "combined_cds ?t1 = [] \<or> 0 < combined_cds_length ?t1"
    using cp by (simp add: combined_cds_length_def)
  have ok: "\<exists>t'. finalize_tail ?t1 ins sps = Inr t'" for ins sps
    using finalize_tail_ok[OF cp1] .
  have ni: "finalize_tail ?t1 ins sps \<noteq> Inl InvalidTranscript" for ins sps
    by (rule finalize_tail_not_invalid)
  have inv: "finalize_invalid t =
     (exons t = [] \<or> (length (exons t) > 1 \<and> strand t = None)
         \<or> (combined_utr t \<noteq> [] \<and> combined_cds t = [])
         \<or> \<not> ((combined_cds_length t = 0 \<and> combined_utr_length t = 0)
               \<or> cdna_length t = combined_utr_length t + combined_cds_length t)
         \<or> fst (hd (sort (exons t))) \<noteq> start t \<or> snd (last (sort (exons t))) \<noteq> end_t t
         \<or> adj_overlap (sort (exons t)))"
    unfolding finalize_invalid_def adj_overlap_sort[OF we] cz uz
    by (cases "exons t = []") auto
  have fc: "finalize t =
     (if finalize_invalid t then Inl InvalidTranscript
      else finalize_tail ?t1 (junctions_of (sort (exons t))) (splices_of (sort (exons t))))"
    by (simp only: finalize_char[OF nf] inv)
  show ?thesis
    by (cases "finalize_invalid t") (simp_all add: fc ok ni)
qed

theorem finalize_raises_iff_witness:
  "\<not> finalized ex_overlapping \<and> wf_intervals (exons ex_overlapping)
   \<and> wf_intervals (combined_cds ex_overlapping) \<and> wf_intervals (combined_utr ex_overlapping)
   \<and> exons_overlap (exons ex_overlapping)
   \<and> finalize ex_overlapping = Inl InvalidTranscript"
proof -
  have nf: "\<not> finalized ex_overlapping"
    by (simp add: ex_overlapping_def new_transcript_def)
  have we: "wf_intervals (exons ex_overlapping)"
    by (simp add: ex_overlapping_def new_transcript_def wf_intervals_def)
  have wc: "wf_intervals (combined_cds ex_overlapping)"
    by (simp add: ex_overlapping_def new_transcript_def wf_intervals_def)
  have wu: "wf_intervals (combined_utr ex_overlapping)"
    by (simp add: ex_overlapping_def new_transcript_def wf_intervals_def)
  have ov: "exons_overlap (exons ex_overlapping)"
    by (rule exons_overlapI[of 0 _ 1])
       (simp_all add: ex_overlapping_def new_transcript_def shares_position_def)
  then have "finalize_invalid ex_overlapping"
    by (simp add: finalize_invalid_def)
  with finalize_raises_iff[OF nf we wc wu] have "finalize ex_overlapping = Inl InvalidTranscript"
    by simp
  with nf we wc wu ov show ?thesis by simp
qed

text \<open>
  Claim C1, as amended. For every transcript on which \<^verbatim>\<open>finalize\<close> has succeeded
  (its exon tuples well formed), the sum of the exon lengths equals
  (end - start + 1) minus the sum of the intron lengths, and, whenever the combined CDS
  length is positive, the cDNA length is the combined CDS length plus the combined UTR
  length.
\<close>

theorem finalize_length_invariants:
  assumes nf: "\<not> finalized t"
    and we: "wf_intervals (exons t)"
    and fin: "finalize t = Inr t'"
  shows "cdna_length t' = (end_t t' - start t' + 1) - sum seg_len (introns t')
       \<and> (0 < combined_cds_length t' \<longrightarrow>
            cdna_length t' = combined_cds_length t' + combined_utr_length t')"
proof -
  let ?es = "sort (exons t)"
  let ?t1 = "t\<lparr>exons := ?es\<rparr>"
  from fin finalize_char[OF nf]
  have ne: "exons t \<noteq> []"
    and len: "(combined_cds_length t = 0 \<and> combined_utr_length t = 0)
               \<or> cdna_length t = combined_utr_length t + combined_cds_length t"
    and hd: "fst (hd ?es) = start t" and la: "snd (last ?es) = end_t t"
    and no: "\<not> adj_overlap ?es"
    and tail: "finalize_tail ?t1 (junctions_of ?es) (splices_of ?es) = Inr t'"
    by (auto split: if_splits)
  from finalize_tail_fields[OF tail]
  have f: "exons t' = ?es" "introns t' = set (junctions_of ?es)"
    "combined_cds t' = sort (combined_cds t)" "combined_utr t' = sort (combined_utr t)"
    "start t' = start t" "end_t t' = end_t t"
    by simp_all
  have d: "distinct (junctions_of ?es)"
    using junctions_distinct[of ?es] we no by simp
  have "sum seg_len (introns t') = sum_list (map seg_len (junctions_of ?es))"
    using d by (simp add: f sum_list_distinct_conv_sum_set)
  moreover have "sum_list (map seg_len ?es) + sum_list (map seg_len (junctions_of ?es))
      = snd (last ?es) - fst (hd ?es) + 1"
    using telescope[of ?es] ne by simp
  ultimately have first: "cdna_length t' = (end_t t' - start t' + 1) - sum seg_len (introns t')"
    by (simp add: cdna_length_def f hd la)
  have eqs: "cdna_length t' = cdna_length t" "combined_cds_length t' = combined_cds_length t"
    "combined_utr_length t' = combined_utr_length t"
    by (simp_all add: cdna_length_def combined_cds_length_def combined_utr_length_def f
          sum_list_sort_key)
  from len have "0 < combined_cds_length t' \<longrightarrow>
      cdna_length t' = combined_cds_length t' + combined_utr_length t'"
    unfolding eqs by auto
  with first show ?thesis by simp
qed

theorem finalize_length_invariants_witness:
  "\<not> finalized ex_coding \<and> wf_intervals (exons ex_coding)
   \<and> finalize ex_coding = Inr ex_coding_final
   \<and> cdna_length ex_coding_final
       = (end_t ex_coding_final - start ex_coding_final + 1) - sum seg_len (introns ex_coding_final)
   \<and> 0 < combined_cds_length ex_coding_final
   \<and> cdna_length ex_coding_final
       = combined_cds_length ex_coding_final + combined_utr_length ex_coding_final"
proof -
  have pos: "0 < combined_cds_length ex_coding_final"
    by (simp add: ex_coding_final_def combined_cds_length_def seg_len_def)
  from finalize_length_invariants[OF ex_coding_not_finalized ex_coding_wf finalize_ex_coding] pos
  show ?thesis
    using ex_coding_not_finalized ex_coding_wf finalize_ex_coding by simp
qed

text \<open>
  The claim as the specification words it, with the intron lengths added to the extent, fails
  on the two-exon transcript: its exons are 301 long, its extent is 401 and its one
  intron is 100.
\<close>

theorem finalize_length_counterexample:
  "finalize ex_coding = Inr ex_coding_final
   \<and> cdna_length ex_coding_final
       \<noteq> (end_t ex_coding_final - start ex_coding_final + 1) + sum seg_len (introns ex_coding_final)"
  by (simp add: finalize_ex_coding)
     (simp add: ex_coding_final_def ex_coding_def new_transcript_def cdna_length_def seg_len_def)

section \<open>Properties of ORF reconciliation\<close>

text \<open>
  Claim C5, as amended. In ORF reconciliation, two different candidate ORFs on the same
  strand are joined by an edge of the ORF graph exactly when the overlap
  min(thickEnd1, thickEnd2) - max(thickStart1, thickStart2) of their intervals is zero or
  positive. With inclusive coordinates an overlap of zero is one shared position, and it
  makes an edge; only a strictly negative overlap leaves the two without one.
\<close>

theorem is_overlapping_cds_iff:
  "is_overlapping_cds a b \<longleftrightarrow>
     a \<noteq> b \<and> orf_strand a = orf_strand b
     \<and> 0 \<le> overlap (thickStart a, thickEnd a) (thickStart b, thickEnd b)"
  by (auto simp: is_overlapping_cds_def)

theorem is_overlapping_cds_iff_witness:
  "ex_orf_a \<noteq> ex_orf_b \<and> orf_strand ex_orf_a = orf_strand ex_orf_b
   \<and> overlap (thickStart ex_orf_a, thickEnd ex_orf_a) (thickStart ex_orf_b, thickEnd ex_orf_b) = 0
   \<and> is_overlapping_cds ex_orf_a ex_orf_b"
  using is_overlapping_cds_iff[of ex_orf_a ex_orf_b]
  by (simp add: ex_orf_a_def ex_orf_b_def overlap_def)

text \<open>
  The claim as the specification words it fails on two ORFs that share position 50: their
  overlap is 0, they have an edge, and they form one community.
\<close>

theorem zero_overlap_counterexample:
  "overlap (thickStart ex_orf_a, thickEnd ex_orf_a) (thickStart ex_orf_b, thickEnd ex_orf_b) = 0
   \<and> orf_strand ex_orf_a = orf_strand ex_orf_b
   \<and> is_overlapping_cds ex_orf_a ex_orf_b
   \<and> find_communities is_overlapping_cds [ex_orf_a, ex_orf_b] = [[ex_orf_a, ex_orf_b]]"
  by (simp add: ex_orf_a_def ex_orf_b_def overlap_def is_overlapping_cds_def Let_def)

lemma ex_mono_is_final:
  "finalize (ex_mono_final\<lparr>finalized := False, selected_internal_orf_index := None,
      internal_orfs := [], segments := []\<rparr>) = Inr ex_mono_final"
  by (simp add: finalize_def ex_mono_final_def new_transcript_def
        finalize_tail_def infer_codons_def make_segments_def seg_key_def
        selected_internal_orf_def set_relative_properties_def
        cdna_length_def combined_cds_length_def combined_utr_length_def seg_len_def Let_def)

lemma finalize_finalized [simp]: "finalized t \<Longrightarrow> finalize t = Inr t"
  by (simp add: finalize_def)

text \<open>
  With the configuration loaded and a session, \<^verbatim>\<open>load_orfs\<close> has two outcomes: it
  returns the finalized transcript when the database has no query row for it, and it
  raises UnboundLocalError when the database has one, whatever ORFs the row has.
\<close>

lemma load_orfs_no_query_row:
  assumes "finalize t = Inr self"
    and "json_get self ''orf_loading'' ''minimal_secondary_orf_length'' = Inr m"
    and "json_get self ''orf_loading'' ''trust_strand'' = Inr ts"
    and "session self = Some db" and "db (tid self) = None"
  shows "load_orfs t = Inr self"
  using assms by (simp add: load_orfs_def)

lemma load_orfs_query_row_raises:
  assumes "finalize t = Inr self"
    and "json_get self ''orf_loading'' ''minimal_secondary_orf_length'' = Inr m"
    and "json_get self ''orf_loading'' ''trust_strand'' = Inr ts"
    and "session self = Some db" and "db (tid self) = Some rows"
  shows "load_orfs t = Inl UnboundLocalError"
  using assms by (simp add: load_orfs_def)

text \<open>
  Claim C6. A secondary representative whose \<^verbatim>\<open>cds_len\<close> equals
  \<^verbatim>\<open>minimal_secondary_orf_length\<close> should be retained. On a finalized monoexonic
  transcript whose database row has a long ORF and a second, disjoint ORF of exactly the
  minimal length 100, \<^verbatim>\<open>load_orfs\<close> retains neither: it raises UnboundLocalError at
  line 519, before any representative is chosen.
\<close>

theorem load_orfs_raises_before_retention:
  "finalized ex_mono_loaded
   \<and> json_get ex_mono_loaded ''orf_loading'' ''minimal_secondary_orf_length''
       = Inr (JInt (cds_len ex_orf_short))
   \<and> thickEnd ex_orf_long < thickStart ex_orf_short
   \<and> load_orfs ex_mono_loaded = Inl UnboundLocalError"
proof -
  have f: "finalized ex_mono_loaded"
    by (simp add: ex_mono_loaded_def ex_mono_final_def)
  have m: "json_get ex_mono_loaded ''orf_loading'' ''minimal_secondary_orf_length''
      = Inr (JInt (cds_len ex_orf_short))"
    by (simp add: ex_mono_loaded_def json_get_def ex_json_def ex_orf_short_def)
  have ts: "json_get ex_mono_loaded ''orf_loading'' ''trust_strand'' = Inr (JBool False)"
    by (simp add: ex_mono_loaded_def json_get_def ex_json_def)
  have se: "session ex_mono_loaded = Some [''m1'' \<mapsto> [ex_orf_long, ex_orf_short]]"
    by (simp add: ex_mono_loaded_def)
  have row: "[''m1'' \<mapsto> [ex_orf_long, ex_orf_short]] (tid ex_mono_loaded)
      = Some [ex_orf_long, ex_orf_short]"
    by (simp add: ex_mono_loaded_def ex_mono_final_def new_transcript_def)
  have no: "thickEnd ex_orf_long < thickStart ex_orf_short"
    by (simp add: ex_orf_long_def ex_orf_short_def)
  from load_orfs_query_row_raises[OF finalize_finalized[OF f] m ts se row] f m no
  show ?thesis by simp
qed

text \<open>
  Claim C4. When no ORF is retained, \<^verbatim>\<open>load_orfs\<close> should fall back to the
  annotation's CDS by running \<^verbatim>\<open>finalize\<close> again. On the finalized transcript t1,
  whose annotation has CDS and whose only candidate ORF ends beyond the cDNA, the method
  does not get as far as skipping the candidate: it raises UnboundLocalError at line
  519 and never reaches the fallback of line 668.
\<close>

theorem load_orfs_raises_before_fallback:
  "finalized ex_coding_loaded
   \<and> combined_cds ex_coding_loaded = [(150, 200), (301, 400)]
   \<and> cdna_length ex_coding_loaded < thickEnd ex_orf_outside
   \<and> load_orfs ex_coding_loaded = Inl UnboundLocalError"
proof -
  have f: "finalized ex_coding_loaded"
    by (simp add: ex_coding_loaded_def ex_coding_final_def)
  have m: "json_get ex_coding_loaded ''orf_loading'' ''minimal_secondary_orf_length''
      = Inr (JInt 100)"
    by (simp add: ex_coding_loaded_def json_get_def ex_json_def)
  have ts: "json_get ex_coding_loaded ''orf_loading'' ''trust_strand'' = Inr (JBool False)"
    by (simp add: ex_coding_loaded_def json_get_def ex_json_def)
  have se: "session ex_coding_loaded = Some [''t1'' \<mapsto> [ex_orf_outside]]"
    by (simp add: ex_coding_loaded_def)
  have row: "[''t1'' \<mapsto> [ex_orf_outside]] (tid ex_coding_loaded) = Some [ex_orf_outside]"
    by (simp add: ex_coding_loaded_def ex_coding_final_def ex_coding_def new_transcript_def)
  have cds: "combined_cds ex_coding_loaded = [(150, 200), (301, 400)]"
    by (simp add: ex_coding_loaded_def ex_coding_final_def)
  have out: "cdna_length ex_coding_loaded < thickEnd ex_orf_outside"
    by (simp add: cdna_length_def seg_len_def ex_coding_loaded_def ex_coding_final_def
          ex_orf_outside_def)
  from load_orfs_query_row_raises[OF finalize_finalized[OF f] m ts se row] f cds out
  show ?thesis by simp
qed

section \<open>Properties of addExon\<close>

text \<open>
  Claim C7. On a transcript that is not finalized, \<^verbatim>\<open>addExon\<close> with a
  \<^verbatim>\<open>start_codon\<close> record returns and sets the flag, and appends nothing. With a
  \<^verbatim>\<open>stop_codon\<close> record it does not return: it raises UnboundLocalError.
\<close>

theorem addExon_stop_codon_raises:
  "addExon ex_coding ex_start_line = Inr (ex_coding\<lparr>has_start_codon := True\<rparr>)
   \<and> addExon ex_coding ex_stop_line = Inl UnboundLocalError"
  by (simp add: addExon_def ex_coding_def new_transcript_def ex_start_line_def ex_stop_line_def)

section \<open>Properties of the metrics\<close>

text \<open>
  Claim C8. On a finalized plus-strand transcript with CDS, \<^verbatim>\<open>end_distance_from_tes\<close>
  should be the exon length from the transcript end to the CDS end. For the two-exon
  transcript, whose CDS ends at 400 in the exon (301, 500), that is 101; the code
  returns 0. On the minus strand it raises AttributeError.
\<close>

theorem end_distance_from_tes_plus_is_zero:
  "strand ex_coding_final = Some Plus
   \<and> end_distance_from_tes ex_coding_final = Inr 0
   \<and> end_distance_from_tes_spec ex_coding_final = 101
   \<and> end_distance_from_tes (ex_coding_final\<lparr>strand := Some Minus\<rparr>) = Inl AttributeError"
  by (simp add: end_distance_from_tes_def end_distance_from_tes_spec_def combined_cds_end_def
        ex_coding_final_def ex_coding_def new_transcript_def Let_def)

section \<open>Properties of split_by_cds\<close>

text \<open>
  Claim C10, as amended. For every finalized transcript with fewer than two internal
  ORFs whose configuration is loaded and holds the option
  \<^verbatim>\<open>chimera_split.minimal_hsp_overlap\<close>, \<^verbatim>\<open>split_by_cds\<close> yields exactly one
  transcript, the object itself, and leaves the object as it was.
\<close>

theorem split_by_cds_single_orf_configured:
  assumes "finalized t" and "number_internal_orfs t < 2"
    and "json_get t ''chimera_split'' ''minimal_hsp_overlap'' = Inr minimal_overlap"
  shows "split_by_cds split_orfs t = Inr (t, [t])"
  using assms by (simp add: split_by_cds_def)

theorem split_by_cds_single_orf_configured_witness:
  "finalized ex_coding_loaded \<and> number_internal_orfs ex_coding_loaded < 2
   \<and> json_get ex_coding_loaded ''chimera_split'' ''minimal_hsp_overlap'' = Inr (JNum 0.8)
   \<and> split_by_cds (\<lambda>t. Inl InvalidTranscript) ex_coding_loaded
       = Inr (ex_coding_loaded, [ex_coding_loaded])"
proof -
  have f: "finalized ex_coding_loaded"
    by (simp add: ex_coding_loaded_def ex_coding_final_def)
  have n: "number_internal_orfs ex_coding_loaded < 2"
    by (simp add: ex_coding_loaded_def ex_coding_final_def number_internal_orfs_def)
  have j: "json_get ex_coding_loaded ''chimera_split'' ''minimal_hsp_overlap'' = Inr (JNum 0.8)"
    by (simp add: ex_coding_loaded_def json_get_def ex_json_def)
  from split_by_cds_single_orf_configured[OF f n j] f n j show ?thesis by simp
qed

text \<open>
  The claim for every finalized transcript fails on one that no configuration was loaded
  into: the transcript t1 as \<^verbatim>\<open>finalize\<close> leaves it has one internal ORF, and
  \<^verbatim>\<open>split_by_cds\<close> raises AttributeError at line 712.
\<close>

theorem split_by_cds_without_configuration_counterexample:
  "finalize ex_coding = Inr ex_coding_final
   \<and> finalized ex_coding_final \<and> number_internal_orfs ex_coding_final < 2
   \<and> split_by_cds (\<lambda>t. Inl InvalidTranscript) ex_coding_final = Inl AttributeError"
proof -
  have f: "finalized ex_coding_final" by (simp add: ex_coding_final_def)
  have n: "number_internal_orfs ex_coding_final < 2"
    by (simp add: ex_coding_final_def number_internal_orfs_def)
  have j: "json_dict ex_coding_final = None"
    by (simp add: ex_coding_final_def ex_coding_def new_transcript_def)
  have "split_by_cds (\<lambda>t. Inl InvalidTranscript) ex_coding_final = Inl AttributeError"
    using f j by (simp add: split_by_cds_def json_get_def)
  with finalize_ex_coding f n show ?thesis by simp
qed

section \<open>Properties of the sublocus predicate\<close>

lemma finalize_ex_other: "finalize ex_other = Inr ex_other_final"
  by (simp add: finalize_def ex_other_def ex_other_final_def new_transcript_def
        finalize_tail_def infer_codons_def make_segments_def seg_key_def
        selected_internal_orf_def set_relative_properties_def
        cdna_length_def combined_cds_length_def combined_utr_length_def seg_len_def Let_def)

lemma finalize_finalized_ok:
  assumes nf: "\<not> finalized t0" and wc: "wf_intervals (combined_cds t0)"
    and fin: "finalize t0 = Inr t"
  shows "finalized_ok t"
proof -
  let ?es = "sort (exons t0)"
  let ?t1 = "t0\<lparr>exons := ?es\<rparr>"
  from fin finalize_char[OF nf]
  have ne: "exons t0 \<noteq> []"
    and tail: "finalize_tail ?t1 (junctions_of ?es) (splices_of ?es) = Inr t"
    by (auto split: if_splits)
  have pos: "combined_cds t0 \<noteq> [] \<Longrightarrow> 0 < sum_list (map seg_len (combined_cds t0))"
    using wf_len_pos[OF wc] by simp
  from finalize_tail_fields[OF tail] ne have a: "finalized t" "exons t \<noteq> []" by simp_all
  from tail pos have "combined_cds t = []
      \<or> (selected_internal_orf_index t = Some 0 \<and> length (internal_orfs t) = 1)"
    by (auto simp: finalize_tail_def Let_def selected_internal_orf_def
          set_relative_properties_def combined_cds_length_def sum_list_sort_key
          split: if_splits option.splits)
  with a show ?thesis by (auto simp: finalized_ok_def)
qed

text \<open>
  On all introns (\<open>cds_only\<close> False) the predicate returns the sublocus rule for every
  pair of finalized transcripts with different identifiers.
\<close>

lemma is_intersecting_all_introns:
  assumes ok1: "finalized_ok t1" and ok2: "finalized_ok t2" and diff: "tid t1 \<noteq> tid t2"
  shows "is_intersecting t1 t2 False = Inr (sublocus_rule t1 t2)"
proof -
  from ok1 ok2 have f: "finalized t1" "finalized t2" and ne: "exons t1 \<noteq> []" "exons t2 \<noteq> []"
    by (simp_all add: finalized_ok_def)
  from ne have len: "length (exons t1) \<noteq> 1 \<longleftrightarrow> 1 < length (exons t1)"
    "length (exons t2) \<noteq> 1 \<longleftrightarrow> 1 < length (exons t2)"
    by (cases "exons t1"; cases "exons t2"; auto)+
  from f diff len show ?thesis
    by (auto simp: is_intersecting_def monoexonic_def sublocus_rule_def)
qed

text \<open>
  On CDS introns (\<open>cds_only\<close> True) a multiexonic pair whose first transcript has fewer
  than two CDS segments makes \<^verbatim>\<open>set.intersection\<close> raise TypeError, whenever the
  property of the second transcript returns at all.
\<close>

lemma is_intersecting_cds_only_first_without_cds:
  assumes f: "finalized t1" "finalized t2" and diff: "tid t1 \<noteq> tid t2"
    and multi: "1 < length (exons t1)" "1 < length (exons t2)"
    and few: "length (combined_cds t1) < 2"
    and second: "combined_cds_introns t2 = Inr b"
  shows "is_intersecting t1 t2 True = Inl TypeError"
  using assms
  by (simp add: is_intersecting_def monoexonic_def combined_cds_introns_def)

text \<open>
  Claim C2. For every pair of distinct finalized transcripts and every value of
  \<open>cds_only\<close> the predicate should return True or False by the sublocus rule. With
  \<open>cds_only\<close> True, on the multiexonic transcript t3, which has no CDS, and the
  multiexonic transcript t1, which share no CDS intron, it does not return False: the
  property of t3 is the empty list, and \<^verbatim>\<open>set.intersection\<close> raises TypeError.
\<close>

theorem is_intersecting_cds_only_type_error:
  "finalized_ok ex_other_final \<and> finalized_ok ex_coding_final
   \<and> tid ex_other_final \<noteq> tid ex_coding_final
   \<and> 1 < length (exons ex_other_final) \<and> 1 < length (exons ex_coding_final)
   \<and> combined_cds_introns ex_other_final = Inr (PyList [])
   \<and> combined_cds_introns ex_coding_final = Inr (PySet {(201, 300)})
   \<and> is_intersecting ex_other_final ex_coding_final True = Inl TypeError
   \<and> is_intersecting ex_other_final ex_coding_final False = Inr True"
proof -
  have ok1: "finalized_ok ex_other_final"
    by (simp add: finalized_ok_def ex_other_final_def ex_other_def new_transcript_def)
  have ok2: "finalized_ok ex_coding_final"
    by (simp add: finalized_ok_def ex_coding_final_def)
  have diff: "tid ex_other_final \<noteq> tid ex_coding_final"
    by (simp add: ex_coding_final_def ex_coding_def ex_other_final_def ex_other_def
          new_transcript_def)
  have m1: "1 < length (exons ex_other_final)"
    by (simp add: ex_other_final_def ex_other_def new_transcript_def)
  have m2: "1 < length (exons ex_coding_final)"
    by (simp add: ex_coding_final_def)
  have few: "length (combined_cds ex_other_final) < 2"
    by (simp add: ex_other_final_def ex_other_def new_transcript_def)
  have a: "combined_cds_introns ex_other_final = Inr (PyList [])"
    using few by (simp add: combined_cds_introns_def)
  have b: "combined_cds_introns ex_coding_final = Inr (PySet {(201, 300)})"
    by (simp add: combined_cds_introns_def selected_cds_introns_def
          selected_internal_orf_cds_def cds_intron_list_def ex_coding_final_def)
  from ok1 ok2 have f: "finalized ex_other_final" "finalized ex_coding_final"
    by (simp_all add: finalized_ok_def)
  have te: "is_intersecting ex_other_final ex_coding_final True = Inl TypeError"
    by (rule is_intersecting_cds_only_first_without_cds[OF f diff m1 m2 few b])
  have "sublocus_rule ex_other_final ex_coding_final"
    by (simp add: sublocus_rule_def ex_coding_final_def ex_other_final_def ex_other_def
          new_transcript_def)
  with is_intersecting_all_introns[OF ok1 ok2 diff]
  have tr: "is_intersecting ex_other_final ex_coding_final False = Inr True" by simp
  from ok1 ok2 diff m1 m2 a b te tr show ?thesis by simp
qed

section \<open>Properties of define_alternative_splicing\<close>

lemma loci_in_conv:
  "loci_in (loci_cliques cliques loci) t
     = map fst (filter (\<lambda>locus. shares_clique cliques (snd locus) t) loci)"
proof -
  have "filter (\<lambda>(llid, members). t \<in> members) (loci_cliques cliques loci)
      = map (\<lambda>(lid, primary).
            (lid, \<Union> ((\<lambda>clique. {t \<in> clique. t \<noteq> primary}) ` {clique \<in> set cliques. primary \<in> clique})))
          (filter (\<lambda>locus. shares_clique cliques (snd locus) t) loci)"
    unfolding loci_cliques_def filter_map
    by (rule arg_cong[where f="map _"], rule filter_cong)
       (auto simp: shares_clique_def split: prod.splits)
  then show ?thesis
    by (simp add: loci_in_def map_idI split_def comp_def)
qed

lemma distinct_singleton:
  assumes "distinct xs"
  shows "xs = [a] \<longleftrightarrow> a \<in> set xs \<and> (\<forall>x \<in> set xs. x = a)"
proof
  assume "xs = [a]"
  then show "a \<in> set xs \<and> (\<forall>x \<in> set xs. x = a)" by simp
next
  assume h: "a \<in> set xs \<and> (\<forall>x \<in> set xs. x = a)"
  show "xs = [a]"
  proof (cases xs)
    case Nil
    with h show ?thesis by simp
  next
    case (Cons y ys)
    with h have y: "y = a" by simp
    have "ys = []"
    proof (cases ys)
      case Nil
      then show ?thesis .
    next
      case (Cons z zs)
      with \<open>xs = y # ys\<close> h have "z = a" by simp
      with Cons \<open>xs = y # ys\<close> y assms show ?thesis by simp
    qed
    with Cons y show ?thesis by simp
  qed
qed

lemma loci_in_singleton:
  assumes "distinct (map fst loci)"
  shows "loci_in (loci_cliques cliques loci) t = [lid] \<longleftrightarrow>
     (\<exists>primary. (lid, primary) \<in> set loci \<and> shares_clique cliques primary t)
     \<and> (\<forall>locus \<in> set loci. shares_clique cliques (snd locus) t \<longrightarrow> fst locus = lid)"
proof -
  let ?f = "filter (\<lambda>locus. shares_clique cliques (snd locus) t) loci"
  have d: "distinct (map fst ?f)" using assms by (rule distinct_map_filter)
  show ?thesis
    unfolding loci_in_conv distinct_singleton[OF d]
    by force
qed

lemma fold_candidates:
  "t \<in> fold (\<lambda>t candidates.
             (case loci_in lc t of
                [lid] \<Rightarrow> candidates(lid := insert t (candidates lid))
              | _ \<Rightarrow> candidates)) ts init lid
   \<longleftrightarrow> t \<in> init lid \<or> (t \<in> set ts \<and> loci_in lc t = [lid])"
proof (induction ts arbitrary: init)
  case Nil
  then show ?case by simp
next
  case (Cons x ts)
  show ?case
    unfolding fold_Cons comp_def Cons.IH
    by (auto split: list.splits)
qed

lemma ex_loci_distinct: "distinct (map fst ex_loci)"
  by (simp add: ex_loci_def)

text \<open>
  Claim C9, as amended. A transcript is submitted as an alternative-splicing candidate to
  a locus exactly when it is a transcript of the superlocus, is no locus's primary, lies
  in at least one clique with the primary of that locus, and lies in no clique with the
  primary of any other locus. A transcript whose cliques connect it to the primaries of
  two or more loci is submitted to no locus.
\<close>

theorem as_candidates_iff:
  assumes "distinct (map fst loci)"
  shows "t \<in> as_candidates cliques loci tids lid \<longleftrightarrow>
     t \<in> set tids \<and> t \<notin> snd ` set loci
     \<and> (\<exists>primary. (lid, primary) \<in> set loci \<and> shares_clique cliques primary t)
     \<and> (\<forall>locus \<in> set loci. shares_clique cliques (snd locus) t \<longrightarrow> fst locus = lid)"
  unfolding as_candidates_def fold_candidates loci_in_singleton[OF assms]
  by auto

theorem as_candidates_iff_witness:
  "distinct (map fst ex_loci)
   \<and> ''t'' \<in> as_candidates ex_cliques ex_loci ex_tids ''L1''
   \<and> ''u'' \<notin> as_candidates ex_cliques ex_loci ex_tids ''L1''
   \<and> ''u'' \<notin> as_candidates ex_cliques ex_loci ex_tids ''L2''"
  using as_candidates_iff[OF ex_loci_distinct, of "''t''" ex_cliques ex_tids "''L1''"]
    as_candidates_iff[OF ex_loci_distinct, of "''u''" ex_cliques ex_tids "''L1''"]
    as_candidates_iff[OF ex_loci_distinct, of "''u''" ex_cliques ex_tids "''L2''"]
  by (simp add: ex_loci_distinct)
     (simp add: ex_loci_def ex_cliques_def ex_tids_def shares_clique_def)

text \<open>
  The claim as the specification words it asks for exactly one clique. The transcript t
  is submitted to L1 although it lies in two cliques that each hold exactly one
  primary.
\<close>

theorem as_candidates_two_cliques_counterexample:
  "''t'' \<in> as_candidates ex_cliques ex_loci ex_tids ''L1''
   \<and> cliques_with_one_primary ex_cliques ex_loci ''t'' = [{''P1'', ''t'', ''a''}, {''P1'', ''t'', ''b''}]"
proof -
  have "''t'' \<in> as_candidates ex_cliques ex_loci ex_tids ''L1''"
    unfolding as_candidates_def fold_candidates loci_in_singleton[OF ex_loci_distinct]
    by (simp add: ex_loci_def ex_cliques_def ex_tids_def shares_clique_def)
  moreover have "cliques_with_one_primary ex_cliques ex_loci ''t''
      = [{''P1'', ''t'', ''a''}, {''P1'', ''t'', ''b''}]"
    by (simp add: cliques_with_one_primary_def ex_loci_def ex_cliques_def)
  ultimately show ?thesis by simp
qed

end
